theory Spec2Isabelle
  imports Complex_Main
begin

section \<open>JavaScript strings\<close>

text \<open>
  A JavaScript string is a sequence of UTF-16 code units. The model uses \<^typ>\<open>string\<close>,
  whose characters are the code units below 256; \<open>length\<close> is the \<open>.length\<close> of the source.
  On that range the white space class \<open>\s\<close> (also used by \<open>trim\<close>) is TAB, LF, VT, FF, CR,
  SPACE and NO-BREAK SPACE, and \<open>toLowerCase\<close> moves \<open>A-Z\<close>, \<open>U+00C0-U+00D6\<close> and
  \<open>U+00D8-U+00DE\<close> up by 32.
\<close>

definition isWhiteSpace :: "char \<Rightarrow> bool" where
  "isWhiteSpace c = (c \<in> set [CHR 0x09, CHR 0x0A, CHR 0x0B, CHR 0x0C, CHR 0x0D, CHR 0x20, CHR 0xA0])"

definition isDigit :: "char \<Rightarrow> bool" where
  "isDigit c = (c \<in> set ''0123456789'')"

definition lowerChar :: "char \<Rightarrow> char" where
  "lowerChar c =
     (let n = (of_char c :: nat)
      in if (65 \<le> n \<and> n \<le> 90) \<or> (192 \<le> n \<and> n \<le> 214) \<or> (216 \<le> n \<and> n \<le> 222)
         then char_of (n + 32) else c)"

definition toLowerCase :: "string \<Rightarrow> string" where
  "toLowerCase s = map lowerChar s"

definition trim :: "string \<Rightarrow> string" where
  "trim s = rev (dropWhile isWhiteSpace (rev (dropWhile isWhiteSpace s)))"

text \<open>\<open>s.replace(/\s+/g, " ")\<close>: every maximal run of white space becomes one space. The flag
  says whether the previous character belonged to a run.\<close>

fun collapseFrom :: "bool \<Rightarrow> string \<Rightarrow> string" where
  "collapseFrom inRun [] = []"
| "collapseFrom inRun (c # cs) =
     (if isWhiteSpace c
      then (if inRun then collapseFrom True cs else CHR 0x20 # collapseFrom True cs)
      else c # collapseFrom False cs)"

definition collapseWhiteSpace :: "string \<Rightarrow> string" where
  "collapseWhiteSpace s = collapseFrom False s"

text \<open>\<open>s.split(/\s+/)\<close>: the pieces between maximal runs of white space; a run at either end
  leaves an empty piece there, and the empty string splits into one empty piece. The
  accumulator holds the current piece reversed.\<close>

fun splitWsFrom :: "bool \<Rightarrow> string \<Rightarrow> string \<Rightarrow> string list" where
  "splitWsFrom inRun acc [] = [rev acc]"
| "splitWsFrom inRun acc (c # cs) =
     (if isWhiteSpace c
      then (if inRun then splitWsFrom True acc cs else rev acc # splitWsFrom True [] cs)
      else splitWsFrom False (c # acc) cs)"

definition splitWhiteSpace :: "string \<Rightarrow> string list" where
  "splitWhiteSpace s = splitWsFrom False [] s"

text \<open>\<open>s.split(/(?<=[.!?])\s+/)\<close>: a separator is a maximal run of white space that starts
  right after one of \<open>.\<close>, \<open>!\<close>, \<open>?\<close>; other white space stays inside its piece.\<close>

definition isTerminator :: "char \<Rightarrow> bool" where
  "isTerminator c = (c \<in> set ''.!?'')"

fun splitAfterTerminator :: "bool \<Rightarrow> string \<Rightarrow> string \<Rightarrow> string list" where
  "splitAfterTerminator inSep acc [] = [rev acc]"
| "splitAfterTerminator inSep acc (c # cs) =
     (if isWhiteSpace c \<and> inSep then splitAfterTerminator True acc cs
      else if isWhiteSpace c \<and> acc \<noteq> [] \<and> isTerminator (hd acc)
           then rev acc # splitAfterTerminator True [] cs
      else splitAfterTerminator False (c # acc) cs)"

fun startsWith :: "string \<Rightarrow> string \<Rightarrow> bool" where
  "startsWith s [] = True"
| "startsWith [] (p # ps) = False"
| "startsWith (c # cs) (p # ps) = (c = p \<and> startsWith cs ps)"

definition endsWith :: "string \<Rightarrow> string \<Rightarrow> bool" where
  "endsWith s p = startsWith (rev s) (rev p)"

fun includes_str :: "string \<Rightarrow> string \<Rightarrow> bool" where
  "includes_str [] p = (p = [])"
| "includes_str (c # cs) p = (startsWith (c # cs) p \<or> includes_str cs p)"

text \<open>A regular expression that is an alternation of literal words, tested with the flag
  \<open>i\<close>: on code units below 256 a character matches an ASCII letter of the pattern
  exactly when its lower case is that letter.\<close>

definition testAnyIgnoreCase :: "string list \<Rightarrow> string \<Rightarrow> bool" where
  "testAnyIgnoreCase words s = list_ex (includes_str (toLowerCase s)) words"

text \<open>\<open>/20[0-2]\d/.test(s)\<close>\<close>

fun testYear :: "string \<Rightarrow> bool" where
  "testYear (a # b # c # d # rest) =
     ((a = CHR ''2'' \<and> b = CHR ''0'' \<and> c \<in> set ''012'' \<and> isDigit d) \<or> testYear (b # c # d # rest))"
| "testYear s = False"

section \<open>Fact extractor (src/lib/fact-extractor.ts)\<close>

record SearchResult =
  title :: string
  url :: string
  snippet :: string

record ResearchFact =
  fact :: string
  sourceUrl :: string
  sourceTitle :: string

record FactCandidate =
  sentence :: string
  candUrl :: string  \<comment> \<open>\<open>sourceUrl\<close>\<close>
  candTitle :: string  \<comment> \<open>\<open>sourceTitle\<close>\<close>
  score :: rat

definition splitSentences :: "string \<Rightarrow> string list" where
  "splitSentences text =
     filter (\<lambda>s. length s > 15) (map trim (splitAfterTerminator False [] text))"

definition scoreSentence :: "string \<Rightarrow> int" where
  "scoreSentence s =
     (if length s > 40 \<and> length s < 300 then 3 else if length s \<ge> 300 then 1 else 0)
   + (if list_ex isDigit s then 4 else 0)
   + (if list_ex (\<lambda>c. c = CHR ''%'' \<or> c = CHR ''$'') s then 3 else 0)
   + (if testAnyIgnoreCase
           [''according to'', ''study'', ''report'', ''research'', ''found that'', ''data shows''] s
      then 3 else 0)
   + (if testYear s then 2 else 0)
   - (if endsWith s ''?'' then 5 else 0)
   - (if testAnyIgnoreCase [''click here'', ''sign up'', ''subscribe'', ''buy now'', ''best ever''] s
      then 10 else 0)
   - (if testAnyIgnoreCase [''cookie'', ''privacy policy'', ''consent''] s then 10 else 0)"

text \<open>
  Scores are JavaScript numbers. A sentence score is an integer between \<open>-25\<close> and \<open>15\<close>,
  and a page sentence carries \<open>score * 0.8\<close>; on these values the comparisons of the doubles
  agree with the comparisons of the exact products, so the model keeps them as rationals.
\<close>

definition snippetCandidate :: "SearchResult \<Rightarrow> string \<Rightarrow> FactCandidate" where
  "snippetCandidate result s =
     \<lparr>sentence = s, candUrl = url result, candTitle = title result,
      score = of_int (scoreSentence s)\<rparr>"

definition pageCandidate :: "SearchResult \<Rightarrow> string \<Rightarrow> FactCandidate" where
  "pageCandidate result s =
     \<lparr>sentence = s, candUrl = url result, candTitle = title result,
      score = of_int (scoreSentence s) * (8 / 10)\<rparr>"

text \<open>The body of the loop over \<open>results\<close>: the snippet's sentences, then (when
  \<open>pageTexts.get(result.url)\<close> is a non-empty string) the first 20 sentences of the page.\<close>

definition candidatesOf :: "(string \<rightharpoonup> string) \<Rightarrow> SearchResult \<Rightarrow> FactCandidate list" where
  "candidatesOf pageTexts result =
     map (snippetCandidate result) (splitSentences (snippet result))
     @ (case pageTexts (url result) of
          None \<Rightarrow> []
        | Some pageText \<Rightarrow>
            if pageText = [] then []
            else map (pageCandidate result) (take 20 (splitSentences pageText)))"

text \<open>\<open>candidates.sort((a, b) => b.score - a.score)\<close>: a stable sort, descending by score.\<close>

definition sortCandidates :: "FactCandidate list \<Rightarrow> FactCandidate list" where
  "sortCandidates cs = sort_key (\<lambda>c. - score c) cs"

definition normalizeText :: "string \<Rightarrow> string" where
  "normalizeText s = trim (collapseWhiteSpace (toLowerCase s))"

text \<open>The set of words of a text; only its size and its members are used.\<close>

definition wordSet :: "string \<Rightarrow> string list" where
  "wordSet s = remdups (splitWhiteSpace s)"

text \<open>The value \<open>overlap\<close> of one round of the loop in \<open>isDuplicate\<close>. Both word sets have
  at least one member, so the division is by a positive number; the quotient of two such
  small integers exceeds the double \<open>0.6\<close> exactly when the exact quotient exceeds 6/10.\<close>

definition overlap :: "string \<Rightarrow> string \<Rightarrow> rat" where
  "overlap normalized existing =
     (let wordsA = wordSet normalized;
          wordsB = wordSet existing;
          intersection = filter (\<lambda>w. w \<in> set wordsB) wordsA
      in of_nat (length intersection) / of_nat (min (length wordsA) (length wordsB)))"

fun isDuplicate :: "string \<Rightarrow> string list \<Rightarrow> bool" where
  "isDuplicate normalized [] = False"
| "isDuplicate normalized (existing # rest) =
     (if overlap normalized existing > 6 / 10 then True else isDuplicate normalized rest)"

text \<open>\<open>seen.add(normalized)\<close> on a \<open>Set\<close> kept in insertion order.\<close>

definition setAdd :: "string list \<Rightarrow> string \<Rightarrow> string list" where
  "setAdd seen x = (if x \<in> set seen then seen else seen @ [x])"

definition factOf :: "FactCandidate \<Rightarrow> ResearchFact" where
  "factOf c = \<lparr>fact = sentence c, sourceUrl = candUrl c, sourceTitle = candTitle c\<rparr>"

text \<open>The selection loop over the sorted candidates, with the accumulated \<open>facts\<close> and
  \<open>seen\<close>. \<open>targetCount\<close> is a JavaScript number, compared with \<open>facts.length\<close> and
  nothing else; the model takes the integers, negative ones included.\<close>

fun selectFacts :: "int \<Rightarrow> FactCandidate list \<Rightarrow> ResearchFact list \<Rightarrow> string list \<Rightarrow> ResearchFact list" where
  "selectFacts targetCount [] facts seen = facts"
| "selectFacts targetCount (c # cs) facts seen =
     (if int (length facts) \<ge> targetCount then facts
      else let normalized = normalizeText (sentence c)
           in if length normalized < 30 then selectFacts targetCount cs facts seen
              else if isDuplicate normalized seen then selectFacts targetCount cs facts seen
              else selectFacts targetCount cs (facts @ [factOf c]) (setAdd seen normalized))"

definition extractFacts :: "SearchResult list \<Rightarrow> (string \<rightharpoonup> string) \<Rightarrow> int \<Rightarrow> ResearchFact list" where
  "extractFacts results pageTexts targetCount =
     selectFacts targetCount (sortCandidates (concat (map (candidatesOf pageTexts) results))) [] []"

text \<open>The invariant of \<open>seen\<close> in the selection loop: no member overlaps an earlier member
  by more than 0.6.\<close>

definition separated :: "string list \<Rightarrow> bool" where
  "separated xs = sorted_wrt (\<lambda>a b. \<not> overlap b a > 6 / 10) xs"

section \<open>Web search (lib/web-search.ts)\<close>

text \<open>A thrown value, carried with its message (\<open>err.message\<close>, or \<open>String(err)\<close>). A
  function of the source that can throw or reject returns \<open>exn + 'a\<close>, \<open>Inl\<close> the raise.\<close>

datatype exn = Error string

fun message :: "exn \<Rightarrow> string" where
  "message (Error m) = m"

record SearchOptions =
  maxResults :: "int option"
  region :: "string option"

text \<open>
  The three strategies send HTTP requests and parse the answers with an HTML library, so
  what each one does on a query (a raise or a result list) belongs to the outside world: it
  is a parameter of the model. The outcome of a request depends on the request only.
\<close>

datatype provider = DuckDuckGoHtml | DuckDuckGoLite | Wikipedia

type_synonym providers = "provider \<Rightarrow> string \<Rightarrow> int \<Rightarrow> exn + SearchResult list"

text \<open>One \<open>try { const results = await search...(query, maxResults); if (results.length > 0)
  return results; } catch { }\<close> block: \<open>Some\<close> is the early return, \<open>None\<close> falls through.\<close>

definition tryStrategy :: "providers \<Rightarrow> provider \<Rightarrow> string \<Rightarrow> int \<Rightarrow> SearchResult list option" where
  "tryStrategy env p query limit =
     (case env p query limit of
        Inl err \<Rightarrow> None
      | Inr results \<Rightarrow> if length results > 0 then Some results else None)"

text \<open>\<open>const { maxResults = 10 } = options\<close>, where \<open>options\<close> is \<open>{}\<close> (here \<open>None\<close>) when the
  caller leaves it out.\<close>

definition maxResultsOf :: "SearchOptions option \<Rightarrow> int" where
  "maxResultsOf options =
     (case options of None \<Rightarrow> 10
      | Some opts \<Rightarrow> (case maxResults opts of None \<Rightarrow> 10 | Some m \<Rightarrow> m))"

text \<open>\<open>searchWeb\<close> returns its outcome and, for the order of the calls, the list of the
  strategies it has awaited.\<close>

definition searchWeb :: "providers \<Rightarrow> string \<Rightarrow> SearchOptions option \<Rightarrow> (exn + SearchResult list) \<times> provider list" where
  "searchWeb env query options =
     (let limit = maxResultsOf options
      in case tryStrategy env DuckDuckGoHtml query limit of
           Some results \<Rightarrow> (Inr results, [DuckDuckGoHtml])
         | None \<Rightarrow>
        (case tryStrategy env DuckDuckGoLite query limit of
           Some results \<Rightarrow> (Inr results, [DuckDuckGoHtml, DuckDuckGoLite])
         | None \<Rightarrow>
        (case tryStrategy env Wikipedia query limit of
           Some results \<Rightarrow> (Inr results, [DuckDuckGoHtml, DuckDuckGoLite, Wikipedia])
         | None \<Rightarrow> (Inr [], [DuckDuckGoHtml, DuckDuckGoLite, Wikipedia]))))"

text \<open>The chain as the specification words it, over the outcomes of the providers in
  priority order: the first non-empty result list, else the empty list; and the strategies
  tried, which stop at the first one that yields results.\<close>

fun spec_firstNonEmpty :: "(exn + SearchResult list) list \<Rightarrow> SearchResult list" where
  "spec_firstNonEmpty [] = []"
| "spec_firstNonEmpty (Inl err # rest) = spec_firstNonEmpty rest"
| "spec_firstNonEmpty (Inr results # rest) =
     (if results \<noteq> [] then results else spec_firstNonEmpty rest)"

fun spec_tried :: "(provider \<Rightarrow> exn + SearchResult list) \<Rightarrow> provider list \<Rightarrow> provider list" where
  "spec_tried outcome [] = []"
| "spec_tried outcome (p # ps) =
     (case outcome p of
        Inl err \<Rightarrow> p # spec_tried outcome ps
      | Inr results \<Rightarrow> if results \<noteq> [] then [p] else p # spec_tried outcome ps)"

subsection \<open>fetchPageContent\<close>

text \<open>
  The network and the HTML library are parameters. \<open>fetch\<close> rejects on a network error and
  when the abort signal of the 8 second timer fires; reading the body can reject in the
  same way. Every call into the library may throw. A selection \<open>$(selector)\<close> has its
  \<open>length\<close> and its \<open>text()\<close>; \<open>bodyText\<close> is \<open>response.text()\<close>.
\<close>

record HttpResponse =
  ok :: bool
  bodyText :: "exn + string"

record Selection =
  count :: nat
  selText :: "exn + string"

record 'doc Web =
  fetch :: "string \<Rightarrow> exn + HttpResponse"
  load :: "string \<Rightarrow> exn + 'doc"
  remove :: "'doc \<Rightarrow> string \<Rightarrow> exn + 'doc"
  select :: "'doc \<Rightarrow> string \<Rightarrow> exn + Selection"

definition contentSelectors :: "string list" where
  "contentSelectors =
     [''article'', ''[role=\"main\"]'', ''main'', ''.post-content'', ''.article-body'', ''.entry-content'']"

text \<open>The loop over \<open>contentSelectors\<close>, from \<open>text = ""\<close>: the text of the first selector
  that matches an element.\<close>

fun firstContent :: "'doc Web \<Rightarrow> 'doc \<Rightarrow> string list \<Rightarrow> exn + string" where
  "firstContent web doc [] = Inr []"
| "firstContent web doc (selector # rest) =
     (case select web doc selector of
        Inl err \<Rightarrow> Inl err
      | Inr el \<Rightarrow> if count el \<noteq> 0 then selText el else firstContent web doc rest)"

text \<open>\<open>s.slice(0, end)\<close> for an integer \<open>end\<close>: a negative \<open>end\<close> counts from the end of the
  string.\<close>

definition sliceFromStart :: "string \<Rightarrow> int \<Rightarrow> string" where
  "sliceFromStart s end =
     (let len = int (length s);
          final = (if end < 0 then max (len + end) 0 else min end len)
      in take (nat final) s)"

text \<open>Sequencing inside a \<open>try\<close> block: a raise of the first step skips the rest.\<close>

definition andThen :: "exn + 'a \<Rightarrow> ('a \<Rightarrow> exn + 'b) \<Rightarrow> exn + 'b" where
  "andThen outcome continue = (case outcome of Inl err \<Rightarrow> Inl err | Inr v \<Rightarrow> continue v)"

text \<open>The body of the \<open>try\<close> block.\<close>

definition fetchPageTry :: "'doc Web \<Rightarrow> string \<Rightarrow> int \<Rightarrow> exn + string" where
  "fetchPageTry web address maxLength =
     andThen (fetch web address) (\<lambda>response.
       if \<not> ok response then Inr []
       else
         andThen (bodyText response) (\<lambda>html.
         andThen (load web html) (\<lambda>doc.
         andThen (remove web doc ''script, style, nav, header, footer, aside, iframe, noscript'') (\<lambda>cleaned.
         andThen (firstContent web cleaned contentSelectors) (\<lambda>found.
         andThen (if found = [] then andThen (select web cleaned ''body'') selText else Inr found)
           (\<lambda>content.
         Inr (sliceFromStart (trim (collapseWhiteSpace content)) maxLength)))))))"

text \<open>The default of the parameter \<open>maxLength = 5000\<close>. \<open>maxLength\<close> is a JavaScript number,
  handed to \<open>slice\<close> and nothing else; the model takes the integers, negative ones
  included.\<close>

definition maxLengthOf :: "int option \<Rightarrow> int" where
  "maxLengthOf maxLengthArg = (case maxLengthArg of None \<Rightarrow> 5000 | Some m \<Rightarrow> m)"

text \<open>\<open>fetchPageContent(url, maxLength = 5000)\<close>: the \<open>catch\<close> turns every raise of the body
  into the empty string. Setting the timer up before the \<open>try\<close> and clearing it in the
  \<open>finally\<close> do not throw.\<close>

definition fetchPageContent :: "'doc Web \<Rightarrow> string \<Rightarrow> int option \<Rightarrow> exn + string" where
  "fetchPageContent web address maxLengthArg =
     (case fetchPageTry web address (maxLengthOf maxLengthArg) of
        Inl err \<Rightarrow> Inr []
      | Inr content \<Rightarrow> Inr content)"

text \<open>The failures of a fetch: \<open>fetch\<close> rejects (a network error, or the abort of the
  timer), the status is not a success, or reading the body rejects (the abort again).\<close>

definition fetchFails :: "'doc Web \<Rightarrow> string \<Rightarrow> bool" where
  "fetchFails web address =
     (case fetch web address of
        Inl err \<Rightarrow> True
      | Inr response \<Rightarrow> \<not> ok response \<or> isl (bodyText response))"

section \<open>Research agent (agents/research-agent.ts)\<close>

definition TARGET_FACTS :: int where
  "TARGET_FACTS = 7"

definition MAX_PAGES_TO_FETCH :: nat where
  "MAX_PAGES_TO_FETCH = 5"

record ResearchSource = SearchResult +
  retrievedAt :: string

record ResearchResult =
  topic :: string
  summary :: string
  facts :: "ResearchFact list"
  sources :: "ResearchSource list"
  searchQueries :: "string list"
  completedAt :: string

definition buildQueries :: "string \<Rightarrow> string list" where
  "buildQueries subject =
     [subject @ '' key facts'', subject @ '' latest information 2025'', subject @ '' statistics and data'']"

text \<open>\<open>r.url.replace(/^https?:\/\//, "").replace(/\/$/, "")\<close>\<close>

definition stripProtocol :: "string \<Rightarrow> string" where
  "stripProtocol s =
     (if startsWith s ''http://'' then drop 7 s
      else if startsWith s ''https://'' then drop 8 s
      else s)"

definition stripTrailingSlash :: "string \<Rightarrow> string" where
  "stripTrailingSlash s = (if endsWith s ''/'' then butlast s else s)"

definition dedupKey :: "string \<Rightarrow> string" where
  "dedupKey s = stripTrailingSlash (stripProtocol s)"

text \<open>The loop of \<open>deduplicateResults\<close>, with its \<open>seen\<close> and \<open>unique\<close>.\<close>

fun dedupLoop :: "SearchResult list \<Rightarrow> string list \<Rightarrow> SearchResult list \<Rightarrow> SearchResult list" where
  "dedupLoop [] seen unique = unique"
| "dedupLoop (r # rs) seen unique =
     (let key = dedupKey (url r)
      in if key \<notin> set seen then dedupLoop rs (setAdd seen key) (unique @ [r])
         else dedupLoop rs seen unique)"

definition deduplicateResults :: "SearchResult list \<Rightarrow> SearchResult list" where
  "deduplicateResults results = dedupLoop results [] []"

text \<open>One query of the fan-out: \<open>searchWeb(query, { maxResults: 8 })\<close> inside its own
  \<open>try\<close>; a raise is recorded in \<open>searchErrors\<close> and the batch is empty.\<close>

definition searchQuery :: "providers \<Rightarrow> string \<Rightarrow> exn + SearchResult list" where
  "searchQuery env query = fst (searchWeb env query (Some \<lparr>maxResults = Some 8, region = None\<rparr>))"

definition batchOf :: "exn + SearchResult list \<Rightarrow> SearchResult list" where
  "batchOf outcome = (case outcome of Inl err \<Rightarrow> [] | Inr results \<Rightarrow> results)"

definition searchErrorOf :: "string \<Rightarrow> exn + SearchResult list \<Rightarrow> string list" where
  "searchErrorOf query outcome =
     (case outcome of
        Inl err \<Rightarrow> [''Query \"'' @ query @ ''\": '' @ message err]
      | Inr results \<Rightarrow> [])"

text \<open>The search results of a run before deduplication: the batches of the queries,
  concatenated in the order of the queries.\<close>

definition allResultsOf :: "providers \<Rightarrow> string \<Rightarrow> SearchResult list" where
  "allResultsOf env subject =
     concat (map (\<lambda>query. batchOf (searchQuery env query)) (buildQueries subject))"

text \<open>
  The page fetches. Every element of \<open>toFetch\<close> starts its request at once, so all of them
  are requested whatever the others do; the second component lists the requested URLs. A
  rejected fetch rejects \<open>Promise.all\<close> and with it the run. The URLs of \<open>toFetch\<close> are
  distinct, so the order in which the answers arrive does not change \<open>pageTexts\<close>.
\<close>

definition fetchOne :: "'doc Web \<Rightarrow> (exn + (string \<rightharpoonup> string)) \<times> string list \<Rightarrow> SearchResult
    \<Rightarrow> (exn + (string \<rightharpoonup> string)) \<times> string list" where
  "fetchOne web state result =
     (case fetchPageContent web (url result) None of
        Inl err \<Rightarrow>
          ((case fst state of Inl first \<Rightarrow> Inl first | Inr pageTexts \<Rightarrow> Inl err),
           snd state @ [url result])
      | Inr content \<Rightarrow>
          ((case fst state of
              Inl first \<Rightarrow> Inl first
            | Inr pageTexts \<Rightarrow>
                Inr (if content \<noteq> [] then pageTexts(url result \<mapsto> content) else pageTexts)),
           snd state @ [url result]))"

definition fetchPages :: "'doc Web \<Rightarrow> SearchResult list \<Rightarrow> (exn + (string \<rightharpoonup> string)) \<times> string list" where
  "fetchPages web toFetch = foldl (fetchOne web) (Inr Map.empty, []) toFetch"

text \<open>\<open>new Date().toISOString()\<close> reads the clock: the \<open>i\<close>-th reading of a run is
  \<open>clock i\<close>.\<close>

definition toSource :: "(nat \<Rightarrow> string) \<Rightarrow> nat \<times> SearchResult \<Rightarrow> ResearchSource" where
  "toSource clock ir =
     \<lparr>title = title (snd ir), url = url (snd ir), snippet = snippet (snd ir),
      retrievedAt = clock (fst ir)\<rparr>"

text \<open>Decimal digits of a number, for the template strings.\<close>

fun showNat :: "nat \<Rightarrow> string" where
  "showNat n =
     (if n < 10 then [char_of (48 + n)] else showNat (n div 10) @ [char_of (48 + n mod 10)])"

fun joinWith :: "string \<Rightarrow> string list \<Rightarrow> string" where
  "joinWith sep [] = []"
| "joinWith sep [x] = x"
| "joinWith sep (x # y # rest) = x @ sep @ joinWith sep (y # rest)"

definition summaryOf :: "string \<Rightarrow> nat \<Rightarrow> nat \<Rightarrow> nat \<Rightarrow> string" where
  "summaryOf subject factCount sourceCount errorCount =
     joinWith '' ''
       (filter (\<lambda>part. part \<noteq> [])
          [''Research on \"'' @ subject @ ''\" complete.'',
           ''Found '' @ showNat factCount @ '' key facts from '' @ showNat sourceCount @ '' sources.'',
           (if errorCount > 0
            then showNat errorCount @ '' search query(ies) encountered errors.'' else [])])"

text \<open>\<open>research(topic)\<close>, with the URLs it has requested as second component.\<close>

definition research :: "providers \<Rightarrow> 'doc Web \<Rightarrow> (nat \<Rightarrow> string) \<Rightarrow> string
    \<Rightarrow> (exn + ResearchResult) \<times> string list" where
  "research env web clock subject =
     (let queries = buildQueries subject;
          outcomes = map (\<lambda>query. (query, searchQuery env query)) queries;
          searchErrors = concat (map (\<lambda>qo. searchErrorOf (fst qo) (snd qo)) outcomes);
          allResults = concat (map (\<lambda>qo. batchOf (snd qo)) outcomes);
          uniqueResults = deduplicateResults allResults;
          toFetch = take MAX_PAGES_TO_FETCH uniqueResults;
          fetched = fetchPages web toFetch
      in ((case fst fetched of
            Inl err \<Rightarrow> Inl err
          | Inr pageTexts \<Rightarrow>
              (let found = extractFacts uniqueResults pageTexts TARGET_FACTS;
                   factUrls = set (map sourceUrl found);
                   contributing = filter (\<lambda>r. url r \<in> factUrls) uniqueResults;
                   remaining = take 3 (filter (\<lambda>r. url r \<notin> factUrls) uniqueResults);
                   allSources = map (toSource clock) (enumerate 0 (contributing @ remaining))
               in Inr \<lparr>topic = subject,
                       summary = summaryOf subject (length found) (length allSources) (length searchErrors),
                       facts = found,
                       sources = allSources,
                       searchQueries = queries,
                       completedAt = clock (length allSources)\<rparr>)),
          snd fetched))"

section \<open>Editor agent (agents/editor-agent.ts)\<close>

text \<open>A field whose name an earlier record already uses carries a prefix; the comment
  beside it gives the name in the source.\<close>

record ArticleCitation =
  index :: int
  citedTitle :: string  \<comment> \<open>\<open>sourceTitle\<close>\<close>
  citedUrl :: string  \<comment> \<open>\<open>sourceUrl\<close>\<close>

record EditChange =
  changeType :: string  \<comment> \<open>\<open>type\<close>\<close>
  original :: string
  replacement :: string
  reason :: string

record QualityScore =
  overall :: int
  grammar :: int
  clarity :: int
  "structure" :: int
  engagement :: int

record EditInput =
  inputTitle :: string  \<comment> \<open>\<open>title\<close>\<close>
  inputArticle :: string  \<comment> \<open>\<open>article\<close>\<close>
  inputTopic :: string  \<comment> \<open>\<open>topic\<close>\<close>
  inputTone :: "string option"  \<comment> \<open>\<open>tone?\<close>\<close>
  inputCitations :: "ArticleCitation list option"  \<comment> \<open>\<open>citations?\<close>\<close>

record EditOptions =
  optArticle :: string  \<comment> \<open>\<open>article\<close>\<close>
  optTitle :: string  \<comment> \<open>\<open>title\<close>\<close>
  optTopic :: string  \<comment> \<open>\<open>topic\<close>\<close>
  optTone :: string  \<comment> \<open>\<open>tone\<close>\<close>

record EditResult =
  resEditedArticle :: string  \<comment> \<open>\<open>editedArticle\<close>\<close>
  resEditedTitle :: string  \<comment> \<open>\<open>editedTitle\<close>\<close>
  resHeadlineSuggestions :: "string list"  \<comment> \<open>\<open>headlineSuggestions\<close>\<close>
  resChanges :: "EditChange list"  \<comment> \<open>\<open>changes\<close>\<close>
  resQualityScore :: QualityScore  \<comment> \<open>\<open>qualityScore\<close>\<close>

record EditorResult =
  originalTitle :: string
  editedTitle :: string
  headlineSuggestions :: "string list"
  originalArticle :: string
  editedArticle :: string
  changes :: "EditChange list"
  qualityScore :: QualityScore
  wordCount :: int
  editedTopic :: string  \<comment> \<open>\<open>topic\<close>\<close>
  tone :: string
  citations :: "ArticleCitation list"
  editedAt :: string

text \<open>
  \<open>EditorAgent.edit\<close>. The rule tables of \<open>editArticle\<close> (lib/article-editor.ts) stay
  outside the model: the function is a parameter, which may throw. \<open>now\<close> is the clock
  reading \<open>new Date().toISOString()\<close>.
\<close>

definition edit :: "(EditOptions \<Rightarrow> exn + EditResult) \<Rightarrow> string \<Rightarrow> EditInput \<Rightarrow> exn + EditorResult" where
  "edit editArticle now input =
     (let chosenTone = (case inputTone input of None \<Rightarrow> ''professional'' | Some t \<Rightarrow> t);
          givenCitations = (case inputCitations input of None \<Rightarrow> [] | Some cs \<Rightarrow> cs)
      in if inputArticle input = [] \<or> length (trim (inputArticle input)) = 0
         then Inl (Error ''A non-empty 'article' string is required for editing'')
         else (case editArticle \<lparr>optArticle = inputArticle input, optTitle = inputTitle input,
                                 optTopic = inputTopic input, optTone = chosenTone\<rparr> of
                 Inl err \<Rightarrow> Inl err
               | Inr result \<Rightarrow>
                   Inr \<lparr>originalTitle = inputTitle input,
                        editedTitle = resEditedTitle result,
                        headlineSuggestions = resHeadlineSuggestions result,
                        originalArticle = inputArticle input,
                        editedArticle = resEditedArticle result,
                        changes = resChanges result,
                        qualityScore = resQualityScore result,
                        wordCount = int (length (splitWhiteSpace (resEditedArticle result))),
                        editedTopic = inputTopic input,
                        tone = chosenTone,
                        citations = givenCitations,
                        editedAt = now\<rparr>))"

section \<open>Orchestrator (app/api/orchestrate/route.ts)\<close>

record WriteInput =
  writeTopic :: string  \<comment> \<open>\<open>topic\<close>\<close>
  writeFacts :: "ResearchFact list"  \<comment> \<open>\<open>facts\<close>\<close>
  writeSources :: "ResearchSource list"  \<comment> \<open>\<open>sources\<close>\<close>
  writeTone :: "string option"  \<comment> \<open>\<open>tone?\<close>\<close>

record WriterResult =
  writtenTitle :: string  \<comment> \<open>\<open>title\<close>\<close>
  article :: string
  writtenTone :: string  \<comment> \<open>\<open>tone\<close>\<close>
  writtenWordCount :: int  \<comment> \<open>\<open>wordCount\<close>\<close>
  writtenCitations :: "ArticleCitation list"  \<comment> \<open>\<open>citations\<close>\<close>
  writtenTopic :: string  \<comment> \<open>\<open>topic\<close>\<close>
  generatedAt :: string

datatype OrchestrationStepStatus = StepPending | StepRunning | StepCompleted | StepFailed | StepSkipped

record OrchestrationStep =
  agent :: string
  status :: OrchestrationStepStatus
  durationMs :: int
  error :: "string option"

datatype OrchestrationStatus = Completed | Partial | Failed

record OrchestrationResult =
  overallStatus :: OrchestrationStatus  \<comment> \<open>\<open>status\<close>\<close>
  overallTopic :: string  \<comment> \<open>\<open>topic\<close>\<close>
  overallTone :: string  \<comment> \<open>\<open>tone\<close>\<close>
  steps :: "OrchestrationStep list"
  totalDurationMs :: int
  researchField :: "ResearchResult option"  \<comment> \<open>\<open>research\<close>, \<open>None\<close> for \<open>null\<close>\<close>
  articleField :: "WriterResult option"  \<comment> \<open>\<open>article\<close>\<close>
  editedField :: "EditorResult option"  \<comment> \<open>\<open>edited\<close>\<close>
  finishedAt :: string  \<comment> \<open>\<open>completedAt\<close>\<close>

text \<open>
  The three agents are parameters of the handler: what \<open>researchAgent.research\<close>,
  \<open>writerAgent.write\<close> and \<open>editorAgent.edit\<close> return or throw on an input. The readings of
  \<open>performance.now()\<close> enter as the rounded time each step and the whole request took.
\<close>

record Agents =
  researchAgent :: "string \<Rightarrow> exn + ResearchResult"
  writerAgent :: "WriteInput \<Rightarrow> exn + WriterResult"
  editorAgent :: "EditInput \<Rightarrow> exn + EditorResult"

record Timings =
  researchMs :: int
  writerMs :: int
  editorMs :: int
  totalMs :: int

definition VALID_TONES :: "string list" where
  "VALID_TONES = [''professional'', ''casual'', ''academic'', ''journalistic'']"

definition makeStep :: "string \<Rightarrow> OrchestrationStep" where
  "makeStep name = \<lparr>agent = name, status = StepPending, durationMs = 0, error = None\<rparr>"

text \<open>\<open>runStep(step, fn)\<close>: the updated step and the outcome of \<open>fn\<close>, rethrown when it is a
  raise.\<close>

definition runStep :: "OrchestrationStep \<Rightarrow> int \<Rightarrow> exn + 'a \<Rightarrow> OrchestrationStep \<times> (exn + 'a)" where
  "runStep step elapsed outcome =
     (let started = step\<lparr>status := StepRunning\<rparr>
      in case outcome of
           Inr result \<Rightarrow> (started\<lparr>durationMs := elapsed, status := StepCompleted\<rparr>, Inr result)
         | Inl err \<Rightarrow>
             (started\<lparr>durationMs := elapsed, status := StepFailed, error := Some (message err)\<rparr>,
              Inl err))"

definition buildResult :: "OrchestrationStatus \<Rightarrow> string \<Rightarrow> string \<Rightarrow> int \<Rightarrow> string
    \<Rightarrow> OrchestrationStep list \<Rightarrow> ResearchResult option \<Rightarrow> WriterResult option
    \<Rightarrow> EditorResult option \<Rightarrow> OrchestrationResult" where
  "buildResult outcome subject chosenTone totalTime now stepList researchData writerData editorData =
     \<lparr>overallStatus = outcome, overallTopic = subject, overallTone = chosenTone, steps = stepList,
      totalDurationMs = totalTime, researchField = researchData, articleField = writerData,
      editedField = editorData, finishedAt = now\<rparr>"

text \<open>The request body, as \<open>request.json()\<close> parses it.\<close>

datatype json = JNull | JBool bool | JNumber rat | JString string
  | JArray "json list" | JObject "(string \<times> json) list"

text \<open>\<open>body.key\<close>: a \<open>TypeError\<close> on \<open>null\<close>, \<open>undefined\<close> (here \<open>None\<close>) on a value that has
  no such property; of a repeated key of an object the parser keeps the last.\<close>

fun property :: "json \<Rightarrow> string \<Rightarrow> exn + json option" where
  "property JNull key = Inl (Error ''Cannot read properties of null'')"
| "property (JObject members) key = Inr (map_of (rev members) key)"
| "property other key = Inr None"

datatype ResponseBody = ErrorBody string | ResultBody OrchestrationResult

record Response =
  httpStatus :: nat
  body :: ResponseBody

definition badRequest :: "string \<Rightarrow> Response" where
  "badRequest msg = \<lparr>httpStatus = 400, body = ErrorBody msg\<rparr>"

text \<open>Parsing and validation, the first \<open>try\<close> block of \<open>POST\<close>: \<open>Inl\<close> is the early return
  of a 400 response, \<open>Inr\<close> the trimmed topic and the tone.\<close>

definition validateInput :: "exn + json \<Rightarrow> Response + string \<times> string" where
  "validateInput parsed =
     (case parsed of
        Inl err \<Rightarrow> Inl (badRequest ''Invalid JSON body'')
      | Inr requestBody \<Rightarrow>
     (case property requestBody ''topic'' of
        Inl err \<Rightarrow> Inl (badRequest ''Invalid JSON body'')
      | Inr topicValue \<Rightarrow>
     (case property requestBody ''tone'' of
        Inl err \<Rightarrow> Inl (badRequest ''Invalid JSON body'')
      | Inr toneValue \<Rightarrow>
          (let toneOrDefault =
                 (case toneValue of
                    None \<Rightarrow> JString ''professional''
                  | Some JNull \<Rightarrow> JString ''professional''
                  | Some given \<Rightarrow> given)
           in case topicValue of
                Some (JString subject) \<Rightarrow>
                  if subject = [] \<or> length (trim subject) = 0
                  then Inl (badRequest ''A non-empty 'topic' string is required'')
                  else (case toneOrDefault of
                          JString chosenTone \<Rightarrow>
                            if chosenTone \<in> set VALID_TONES then Inr (trim subject, chosenTone)
                            else Inl (badRequest (''Invalid tone. Must be one of: ''
                                                  @ joinWith '', '' VALID_TONES))
                        | other \<Rightarrow>
                            Inl (badRequest (''Invalid tone. Must be one of: ''
                                             @ joinWith '', '' VALID_TONES)))
              | other \<Rightarrow> Inl (badRequest ''A non-empty 'topic' string is required'')))))"

text \<open>The pipeline, from "Prepare step trackers" to the end of \<open>POST\<close>.\<close>

definition runPipeline :: "Agents \<Rightarrow> Timings \<Rightarrow> string \<Rightarrow> string \<Rightarrow> string \<Rightarrow> Response" where
  "runPipeline agents timing now subject chosenTone =
     (let researchStep = makeStep ''research'';
          writerStep = makeStep ''writer'';
          editorStep = makeStep ''editor'';
          researchRun = runStep researchStep (researchMs timing) (researchAgent agents subject)
      in case snd researchRun of
           Inl err \<Rightarrow>
             \<lparr>httpStatus = 502,
              body = ResultBody (buildResult Failed subject chosenTone (totalMs timing) now
                       [fst researchRun, writerStep\<lparr>status := StepSkipped\<rparr>,
                        editorStep\<lparr>status := StepSkipped\<rparr>]
                       None None None)\<rparr>
         | Inr researchData \<Rightarrow>
             if facts researchData = []
             then \<lparr>httpStatus = 200,
                   body = ResultBody (buildResult Partial subject chosenTone (totalMs timing) now
                            [(fst researchRun)\<lparr>status := StepCompleted\<rparr>,
                             writerStep\<lparr>status := StepSkipped,
                                        error := Some ''No facts available from research to write about''\<rparr>,
                             editorStep\<lparr>status := StepSkipped\<rparr>]
                            (Some researchData) None None)\<rparr>
             else
            (let writerRun = runStep writerStep (writerMs timing)
                   (writerAgent agents
                      \<lparr>writeTopic = topic researchData, writeFacts = facts researchData,
                       writeSources = sources researchData, writeTone = Some chosenTone\<rparr>)
             in case snd writerRun of
                  Inl err \<Rightarrow>
                    \<lparr>httpStatus = 200,
                     body = ResultBody (buildResult Partial subject chosenTone (totalMs timing) now
                              [fst researchRun, fst writerRun, editorStep\<lparr>status := StepSkipped\<rparr>]
                              (Some researchData) None None)\<rparr>
                | Inr writerData \<Rightarrow>
                   (let editorRun = runStep editorStep (editorMs timing)
                          (editorAgent agents
                             \<lparr>inputTitle = writtenTitle writerData, inputArticle = article writerData,
                              inputTopic = writtenTopic writerData, inputTone = Some chosenTone,
                              inputCitations = Some (writtenCitations writerData)\<rparr>)
                    in case snd editorRun of
                         Inl err \<Rightarrow>
                           \<lparr>httpStatus = 200,
                            body = ResultBody (buildResult Partial subject chosenTone (totalMs timing) now
                                     [fst researchRun, fst writerRun, fst editorRun]
                                     (Some researchData) (Some writerData) None)\<rparr>
                       | Inr editorData \<Rightarrow>
                           \<lparr>httpStatus = 200,
                            body = ResultBody (buildResult Completed subject chosenTone (totalMs timing) now
                                     [fst researchRun, fst writerRun, fst editorRun]
                                     (Some researchData) (Some writerData) (Some editorData))\<rparr>)))"

definition POST :: "Agents \<Rightarrow> Timings \<Rightarrow> string \<Rightarrow> exn + json \<Rightarrow> Response" where
  "POST agents timing now parsed =
     (case validateInput parsed of
        Inl response \<Rightarrow> response
      | Inr input \<Rightarrow> runPipeline agents timing now (fst input) (snd input))"

section \<open>Example inputs\<close>

text \<open>Concrete inputs on which the properties below are evaluated.\<close>

definition exampleResult :: SearchResult where
  "exampleResult =
     \<lparr>title = ''Solar report'', url = ''https://a.example/solar'',
      snippet = ''Solar power grew 24% in 2023 according to a report. Solar power grew 24% in 2023 according to the report. Is this a good thing for everyone involved?''\<rparr>"

definition questionResult :: "string \<Rightarrow> SearchResult" where
  "questionResult address = \<lparr>title = ''Forum'', url = address, snippet = ''Is this good?''\<rparr>"

definition studyResult :: SearchResult where
  "studyResult =
     \<lparr>title = ''Study'', url = ''https://f.example/study'',
      snippet = ''According to a 2024 study, 42% of users reported improvement.''\<rparr>"

definition exampleResults :: "SearchResult list" where
  "exampleResults =
     [questionResult ''https://a.example/'', questionResult ''http://a.example'',
      questionResult ''https://b.example/q'', questionResult ''https://c.example/q'',
      questionResult ''https://d.example/q'', questionResult ''https://e.example/q'', studyResult]"

text \<open>The first strategy is blocked, the second finds nothing, the third answers every
  query with \<open>exampleResults\<close>.\<close>

definition exampleProviders :: providers where
  "exampleProviders p query limit =
     (case p of
        DuckDuckGoHtml \<Rightarrow> Inl (Error ''DuckDuckGo HTML: blocked'')
      | DuckDuckGoLite \<Rightarrow> Inr []
      | Wikipedia \<Rightarrow> Inr exampleResults)"

definition silentProviders :: providers where
  "silentProviders p query limit = Inr []"

text \<open>One page answers; every other request fails. A document is its own text, found under
  \<open>main\<close>.\<close>

definition exampleWeb :: "string Web" where
  "exampleWeb =
     \<lparr>fetch = (\<lambda>address.
         if address = ''https://b.example/q''
         then Inr \<lparr>ok = True, bodyText = Inr ''  Wind   turbines supplied 10% of the electricity in 2022.  ''\<rparr>
         else Inl (Error ''fetch failed'')),
      load = (\<lambda>html. Inr html),
      remove = (\<lambda>doc selector. Inr doc),
      select = (\<lambda>doc selector.
         Inr \<lparr>count = (if selector = ''main'' then 1 else 0), selText = Inr doc\<rparr>)\<rparr>"

definition exampleClock :: "nat \<Rightarrow> string" where
  "exampleClock i = ''2025-01-01T00:00:0'' @ showNat i @ ''.000Z''"

text \<open>
  The reading of "the deduplicated, scored result list" that orders the results by score:
  the source gives a search result no score, so a result is scored here by
  \<open>scoreSentence\<close> on its snippet, and the list is taken in descending order of that score.
\<close>

definition spec_scoredFront :: "SearchResult list \<Rightarrow> string list" where
  "spec_scoredFront results =
     map url (take 5 (sort_key (\<lambda>r. - scoreSentence (snippet r)) (deduplicateResults results)))"

definition exampleRequest :: "exn + json" where
  "exampleRequest = Inr (JObject [(''topic'', JString '' solar power ''), (''tone'', JNull)])"

definition exampleTimings :: Timings where
  "exampleTimings = \<lparr>researchMs = 12, writerMs = 0, editorMs = 0, totalMs = 13\<rparr>"

text \<open>An editor that changes nothing.\<close>

definition exampleEditArticle :: "EditOptions \<Rightarrow> exn + EditResult" where
  "exampleEditArticle options =
     Inr \<lparr>resEditedArticle = optArticle options, resEditedTitle = optTitle options,
          resHeadlineSuggestions = [optTitle options], resChanges = [],
          resQualityScore = \<lparr>overall = 90, grammar = 95, clarity = 90, structure = 85, engagement = 90\<rparr>\<rparr>"

definition exampleCitation :: ArticleCitation where
  "exampleCitation = \<lparr>index = 1, citedTitle = ''Solar report'', citedUrl = ''https://a.example/solar''\<rparr>"

definition exampleEditInput :: "ArticleCitation list option \<Rightarrow> EditInput" where
  "exampleEditInput given =
     \<lparr>inputTitle = ''Solar power'', inputArticle = ''Solar power grew 24% in 2023 [1].'',
      inputTopic = ''solar power'', inputTone = None, inputCitations = given\<rparr>"

text \<open>What a research run returns when the providers find nothing.\<close>

definition emptyResearch :: ResearchResult where
  "emptyResearch =
     \<lparr>topic = ''solar power'',
      summary = ''Research on \"solar power\" complete. Found 0 key facts from 0 sources.'',
      facts = [], sources = [],
      searchQueries = [''solar power key facts'', ''solar power latest information 2025'',
                       ''solar power statistics and data''],
      completedAt = ''2025-01-01T00:00:00.000Z''\<rparr>"

text \<open>Agents whose research raises, and agents whose research runs on providers that find
  nothing.\<close>

definition failingAgents :: Agents where
  "failingAgents =
     \<lparr>researchAgent = (\<lambda>subject. Inl (Error ''research unavailable'')),
      writerAgent = (\<lambda>input. Inl (Error ''At least one research fact is required to write an article'')),
      editorAgent = edit exampleEditArticle ''2025-01-01T00:00:09.000Z''\<rparr>"

definition noFactsAgents :: Agents where
  "noFactsAgents =
     \<lparr>researchAgent = (\<lambda>subject. fst (research silentProviders exampleWeb exampleClock subject)),
      writerAgent = (\<lambda>input. Inl (Error ''At least one research fact is required to write an article'')),
      editorAgent = edit exampleEditArticle ''2025-01-01T00:00:09.000Z''\<rparr>"

section \<open>Properties\<close>

subsection \<open>Sentence scoring\<close>

text \<open>
  C9. The sentence-scoring function gives "According to a 2024 study, 42% of users reported
  improvement." a strictly higher score than "Is this good?".
\<close>

theorem scoreSentence_example:
  "scoreSentence ''Is this good?''
     < scoreSentence ''According to a 2024 study, 42% of users reported improvement.''"
  by code_simp

subsection \<open>The selection loop of the extractor\<close>

lemma selectFacts_length:
  "int (length acc) \<le> t \<Longrightarrow> int (length (selectFacts t cs acc seen)) \<le> t"
  by (induction cs arbitrary: acc seen) (auto simp: Let_def)

lemma selectFacts_subset:
  "set (selectFacts t cs acc seen)
     \<subseteq> set acc \<union> factOf ` {c \<in> set cs. 30 \<le> length (normalizeText (sentence c))}"
proof (induction cs arbitrary: acc seen)
  case Nil
  show ?case by simp
next
  case (Cons c cs)
  show ?case
    using Cons.IH [of acc seen] Cons.IH [of "acc @ [factOf c]" "setAdd seen (normalizeText (sentence c))"]
    by (auto simp: Let_def)
qed

lemma selectFacts_normalized:
  assumes "f \<in> set (selectFacts t cs [] [])"
  shows "30 \<le> length (normalizeText (fact f))"
proof -
  from assms selectFacts_subset [of t cs "[]" "[]"]
  obtain c where "f = factOf c" and "30 \<le> length (normalizeText (sentence c))" by auto
  then show ?thesis by (simp add: factOf_def)
qed

text \<open>
  C3, as the claim states it, at a negative target: for \<open>targetCount = -1\<close> the loop stops at
  once and returns the empty list, whose length 0 is not \<open>\<le> -1\<close>.
\<close>

theorem extractFacts_negative_target_counterexample:
  "\<not> int (length (extractFacts [exampleResult] Map.empty (- 1))) \<le> - 1"
  by code_simp

text \<open>
  C3, amended. For every extraction run with an integer \<open>targetCount \<ge> 0\<close> the returned
  list has at most \<open>targetCount\<close> facts; and in every run, whatever \<open>targetCount\<close>, the
  normalized text (lower case, white space collapsed, trimmed) of every returned fact has
  at least 30 characters.
\<close>

theorem extractFacts_bound:
  "(0 \<le> targetCount \<longrightarrow> int (length (extractFacts results pageTexts targetCount)) \<le> targetCount)
   \<and> (\<forall>f \<in> set (extractFacts results pageTexts targetCount). 30 \<le> length (normalizeText (fact f)))"
proof
  show "0 \<le> targetCount \<longrightarrow> int (length (extractFacts results pageTexts targetCount)) \<le> targetCount"
    unfolding extractFacts_def using selectFacts_length [of "[]" targetCount] by simp
next
  show "\<forall>f \<in> set (extractFacts results pageTexts targetCount). 30 \<le> length (normalizeText (fact f))"
    unfolding extractFacts_def by (blast intro: selectFacts_normalized)
qed

text \<open>
  C3, witness: with \<open>targetCount = 1\<close> the example snippet, which holds two acceptable
  sentences, yields exactly one fact.
\<close>

theorem extractFacts_bound_witness:
  "(0::int) \<le> 1
   \<and> extractFacts [exampleResult] Map.empty 1 \<noteq> []
   \<and> int (length (extractFacts [exampleResult] Map.empty 1)) \<le> 1
   \<and> list_all (\<lambda>f. 30 \<le> length (normalizeText (fact f))) (extractFacts [exampleResult] Map.empty 1)"
proof -
  have nonempty: "extractFacts [exampleResult] Map.empty 1 \<noteq> []"
    by code_simp
  from extractFacts_bound [of 1 "[exampleResult]" Map.empty] nonempty
  show ?thesis by (simp add: list_all_iff)
qed

subsection \<open>Near-duplicates\<close>

lemma splitWsFrom_nonempty: "splitWsFrom b acc s \<noteq> []"
  by (induction s arbitrary: b acc) auto

lemma wordSet_nonempty: "wordSet s \<noteq> []"
  by (simp add: wordSet_def splitWhiteSpace_def splitWsFrom_nonempty)

lemma intersection_card:
  "length (filter (\<lambda>w. w \<in> set (wordSet b)) (wordSet a)) = card (set (wordSet a) \<inter> set (wordSet b))"
proof -
  have d: "distinct (filter (\<lambda>w. w \<in> set (wordSet b)) (wordSet a))"
    by (simp add: wordSet_def)
  have "set (filter (\<lambda>w. w \<in> set (wordSet b)) (wordSet a)) = set (wordSet a) \<inter> set (wordSet b)"
    by auto
  with distinct_card [OF d] show ?thesis by simp
qed

lemma overlap_sym: "overlap a b = overlap b a"
  by (simp add: overlap_def Let_def intersection_card Int_commute min.commute)

lemma overlap_self: "overlap a a = 1"
  using wordSet_nonempty [of a] by (simp add: overlap_def Let_def)

lemma isDuplicate_iff: "isDuplicate n seen \<longleftrightarrow> (\<exists>e \<in> set seen. overlap n e > 6 / 10)"
  by (induction seen) auto

lemma not_dup_not_member: "\<not> isDuplicate n seen \<Longrightarrow> n \<notin> set seen"
  using overlap_self [of n] by (auto simp: isDuplicate_iff)

lemma selectFacts_separated:
  "seen = map (\<lambda>f. normalizeText (fact f)) acc \<Longrightarrow> separated seen \<Longrightarrow>
   separated (map (\<lambda>f. normalizeText (fact f)) (selectFacts t cs acc seen))"
proof (induction cs arbitrary: acc seen)
  case Nil
  then show ?case by simp
next
  case (Cons c cs)
  let ?n = "normalizeText (sentence c)"
  show ?case
  proof (cases "\<not> int (length acc) \<ge> t \<and> \<not> length ?n < 30 \<and> \<not> isDuplicate ?n seen")
    case True
    then have nd: "\<not> isDuplicate ?n seen" by simp
    have add: "setAdd seen ?n = seen @ [?n]"
      using not_dup_not_member [OF nd] by (simp add: setAdd_def)
    have seen': "seen @ [?n] = map (\<lambda>f. normalizeText (fact f)) (acc @ [factOf c])"
      using Cons.prems(1) by (simp add: factOf_def)
    have sep': "separated (seen @ [?n])"
      using Cons.prems(2) nd by (auto simp: separated_def sorted_wrt_append isDuplicate_iff)
    show ?thesis
      using True Cons.IH [OF seen' sep'] add by (simp add: Let_def)
  next
    case False
    then show ?thesis
      using Cons.IH [OF Cons.prems] Cons.prems by (auto simp: Let_def)
  qed
qed

lemma extractFacts_separated:
  "separated (map (\<lambda>f. normalizeText (fact f)) (extractFacts results pageTexts targetCount))"
  unfolding extractFacts_def by (rule selectFacts_separated) (simp_all add: separated_def)

text \<open>
  C7. In every extraction run, no two facts of the returned list have a word-set overlap
  ratio above 0.6, the ratio being the size of the intersection over the smaller of the two
  word-set sizes, on the normalized texts of the two facts.
\<close>

theorem extractFacts_no_overlap:
  assumes "i < length (extractFacts results pageTexts targetCount)"
      and "j < length (extractFacts results pageTexts targetCount)" and "i \<noteq> j"
  shows "\<not> overlap (normalizeText (fact (extractFacts results pageTexts targetCount ! i)))
                   (normalizeText (fact (extractFacts results pageTexts targetCount ! j))) > 6 / 10"
proof -
  let ?xs = "map (\<lambda>f. normalizeText (fact f)) (extractFacts results pageTexts targetCount)"
  have s: "sorted_wrt (\<lambda>a b. \<not> overlap b a > 6 / 10) ?xs"
    using extractFacts_separated [of results pageTexts targetCount] by (simp add: separated_def)
  have lt: "\<And>a b. a < b \<Longrightarrow> b < length ?xs \<Longrightarrow> \<not> overlap (?xs ! b) (?xs ! a) > 6 / 10"
    using s by (simp only: sorted_wrt_iff_nth_less) blast
  show ?thesis
  proof (cases "i < j")
    case True
    from lt [OF True] assms(2) have "\<not> overlap (?xs ! j) (?xs ! i) > 6 / 10" by simp
    then show ?thesis using assms(1,2) True by (simp add: overlap_sym [of "normalizeText (fact (extractFacts results pageTexts targetCount ! i))"])
  next
    case False
    then have ji: "j < i" using assms(3) by simp
    from lt [OF ji] assms(1) have "\<not> overlap (?xs ! i) (?xs ! j) > 6 / 10" by simp
    then show ?thesis using assms(1,2) ji by simp
  qed
qed

text \<open>
  C7, witness: the example snippet holds two sentences that differ in one word, and a
  question; the returned list has two facts, which do not overlap.
\<close>

theorem extractFacts_no_overlap_witness:
  "0 < length (extractFacts [exampleResult] Map.empty 7)
   \<and> 1 < length (extractFacts [exampleResult] Map.empty 7)
   \<and> (0::nat) \<noteq> 1
   \<and> \<not> overlap (normalizeText (fact (extractFacts [exampleResult] Map.empty 7 ! 0)))
                (normalizeText (fact (extractFacts [exampleResult] Map.empty 7 ! 1))) > 6 / 10"
proof -
  have len: "length (extractFacts [exampleResult] Map.empty 7) = 2"
    by code_simp
  from extractFacts_no_overlap [of 0 "[exampleResult]" Map.empty 7 1] len
  show ?thesis by simp
qed

subsection \<open>The provider chain\<close>

lemma tryStrategy_Some:
  "tryStrategy env p query limit = Some results \<longleftrightarrow> env p query limit = Inr results \<and> results \<noteq> []"
  by (auto simp: tryStrategy_def split: sum.splits)

lemma tryStrategy_None:
  "tryStrategy env p query limit = None \<longleftrightarrow> isl (env p query limit) \<or> env p query limit = Inr []"
  by (auto simp: tryStrategy_def split: sum.splits)

lemma spec_firstNonEmpty_skip:
  "isl x \<or> x = Inr [] \<Longrightarrow> spec_firstNonEmpty (x # rest) = spec_firstNonEmpty rest"
  by (cases x) auto

lemma spec_firstNonEmpty_hit:
  "results \<noteq> [] \<Longrightarrow> spec_firstNonEmpty (Inr results # rest) = results"
  by simp

lemma spec_tried_skip:
  "isl (outcome p) \<or> outcome p = Inr [] \<Longrightarrow> spec_tried outcome (p # ps) = p # spec_tried outcome ps"
  by (cases "outcome p") auto

lemma spec_tried_hit:
  "outcome p = Inr results \<Longrightarrow> results \<noteq> [] \<Longrightarrow> spec_tried outcome (p # ps) = [p]"
  by simp

lemma searchWeb_cases:
  fixes env query options
  defines "m \<equiv> maxResultsOf options"
  shows "searchWeb env query options =
     (case tryStrategy env DuckDuckGoHtml query m of
        Some results \<Rightarrow> (Inr results, [DuckDuckGoHtml])
      | None \<Rightarrow>
     (case tryStrategy env DuckDuckGoLite query m of
        Some results \<Rightarrow> (Inr results, [DuckDuckGoHtml, DuckDuckGoLite])
      | None \<Rightarrow>
     (case tryStrategy env Wikipedia query m of
        Some results \<Rightarrow> (Inr results, [DuckDuckGoHtml, DuckDuckGoLite, Wikipedia])
      | None \<Rightarrow> (Inr [], [DuckDuckGoHtml, DuckDuckGoLite, Wikipedia]))))"
  unfolding m_def searchWeb_def Let_def ..

text \<open>
  C2. For every query and options \<open>searchWeb\<close> never raises: it awaits the strategies one
  after the other in the fixed order DuckDuckGo HTML, DuckDuckGo Lite, Wikipedia, stops at
  the first one that yields a non-empty list and returns that list, the list of one
  provider alone; when every provider raises or yields nothing it returns the empty list.
\<close>

theorem searchWeb_first_nonempty:
  "fst (searchWeb env query options)
     = Inr (spec_firstNonEmpty (map (\<lambda>p. env p query (maxResultsOf options))
              [DuckDuckGoHtml, DuckDuckGoLite, Wikipedia]))
   \<and> snd (searchWeb env query options)
     = spec_tried (\<lambda>p. env p query (maxResultsOf options)) [DuckDuckGoHtml, DuckDuckGoLite, Wikipedia]
   \<and> (fst (searchWeb env query options) = Inr []
      \<or> (\<exists>p. env p query (maxResultsOf options) = fst (searchWeb env query options)))"
proof -
  define m where "m = maxResultsOf options"
  define outcome where "outcome = (\<lambda>p. env p query m)"
  have try_some: "tryStrategy env p query m = Some results \<longleftrightarrow> outcome p = Inr results \<and> results \<noteq> []"
    for p results by (simp add: tryStrategy_Some outcome_def)
  have try_none: "tryStrategy env p query m = None \<longleftrightarrow> isl (outcome p) \<or> outcome p = Inr []"
    for p by (simp add: tryStrategy_None outcome_def)
  have goal: "fst (searchWeb env query options)
       = Inr (spec_firstNonEmpty [outcome DuckDuckGoHtml, outcome DuckDuckGoLite, outcome Wikipedia])
     \<and> snd (searchWeb env query options) = spec_tried outcome [DuckDuckGoHtml, DuckDuckGoLite, Wikipedia]
     \<and> (fst (searchWeb env query options) = Inr [] \<or> (\<exists>p. outcome p = fst (searchWeb env query options)))"
  proof (cases "tryStrategy env DuckDuckGoHtml query m")
    case (Some results)
    then have sw: "searchWeb env query options = (Inr results, [DuckDuckGoHtml])"
      by (simp add: searchWeb_cases m_def)
    from Some have h: "outcome DuckDuckGoHtml = Inr results" and ne: "results \<noteq> []"
      by (simp_all add: try_some)
    have chosen: "spec_firstNonEmpty [outcome DuckDuckGoHtml, outcome DuckDuckGoLite, outcome Wikipedia] = results"
      by (simp only: h spec_firstNonEmpty_hit [OF ne])
    have tried: "spec_tried outcome [DuckDuckGoHtml, DuckDuckGoLite, Wikipedia] = [DuckDuckGoHtml]"
      by (rule spec_tried_hit [of outcome DuckDuckGoHtml, OF h ne])
    have "\<exists>p. outcome p = Inr results" using h by blast
    then show ?thesis by (simp only: sw chosen tried fst_conv snd_conv) simp
  next
    case first: None
    then have skip1: "isl (outcome DuckDuckGoHtml) \<or> outcome DuckDuckGoHtml = Inr []"
      by (simp add: try_none)
    show ?thesis
    proof (cases "tryStrategy env DuckDuckGoLite query m")
      case (Some results)
      with first have sw: "searchWeb env query options = (Inr results, [DuckDuckGoHtml, DuckDuckGoLite])"
        by (simp add: searchWeb_cases m_def)
      from Some have h: "outcome DuckDuckGoLite = Inr results" and ne: "results \<noteq> []"
        by (simp_all add: try_some)
      have chosen: "spec_firstNonEmpty [outcome DuckDuckGoHtml, outcome DuckDuckGoLite, outcome Wikipedia] = results"
        by (simp only: spec_firstNonEmpty_skip [OF skip1] h spec_firstNonEmpty_hit [OF ne])
      have tried: "spec_tried outcome [DuckDuckGoHtml, DuckDuckGoLite, Wikipedia] = [DuckDuckGoHtml, DuckDuckGoLite]"
        by (simp only: spec_tried_skip [of outcome DuckDuckGoHtml, OF skip1]
              spec_tried_hit [of outcome DuckDuckGoLite, OF h ne])
      have "\<exists>p. outcome p = Inr results" using h by blast
      then show ?thesis by (simp only: sw chosen tried fst_conv snd_conv) simp
    next
      case second: None
      then have skip2: "isl (outcome DuckDuckGoLite) \<or> outcome DuckDuckGoLite = Inr []"
        by (simp add: try_none)
      show ?thesis
      proof (cases "tryStrategy env Wikipedia query m")
        case (Some results)
        with first second
        have sw: "searchWeb env query options = (Inr results, [DuckDuckGoHtml, DuckDuckGoLite, Wikipedia])"
          by (simp add: searchWeb_cases m_def)
        from Some have h: "outcome Wikipedia = Inr results" and ne: "results \<noteq> []"
          by (simp_all add: try_some)
        have chosen: "spec_firstNonEmpty [outcome DuckDuckGoHtml, outcome DuckDuckGoLite, outcome Wikipedia] = results"
          by (simp only: spec_firstNonEmpty_skip [OF skip1] spec_firstNonEmpty_skip [OF skip2] h
                spec_firstNonEmpty_hit [OF ne])
        have tried: "spec_tried outcome [DuckDuckGoHtml, DuckDuckGoLite, Wikipedia]
            = [DuckDuckGoHtml, DuckDuckGoLite, Wikipedia]"
          by (simp only: spec_tried_skip [of outcome DuckDuckGoHtml, OF skip1]
                spec_tried_skip [of outcome DuckDuckGoLite, OF skip2]
                spec_tried_hit [of outcome Wikipedia, OF h ne])
        have "\<exists>p. outcome p = Inr results" using h by blast
        then show ?thesis by (simp only: sw chosen tried fst_conv snd_conv) simp
      next
        case third: None
        then have skip3: "isl (outcome Wikipedia) \<or> outcome Wikipedia = Inr []"
          by (simp add: try_none)
        from first second third
        have sw: "searchWeb env query options = (Inr [], [DuckDuckGoHtml, DuckDuckGoLite, Wikipedia])"
          by (simp add: searchWeb_cases m_def)
        have chosen: "spec_firstNonEmpty [outcome DuckDuckGoHtml, outcome DuckDuckGoLite, outcome Wikipedia] = []"
          by (simp only: spec_firstNonEmpty_skip [OF skip1] spec_firstNonEmpty_skip [OF skip2]
                spec_firstNonEmpty_skip [OF skip3] spec_firstNonEmpty.simps(1))
        have tried: "spec_tried outcome [DuckDuckGoHtml, DuckDuckGoLite, Wikipedia]
            = [DuckDuckGoHtml, DuckDuckGoLite, Wikipedia]"
          by (simp only: spec_tried_skip [of outcome DuckDuckGoHtml, OF skip1]
                spec_tried_skip [of outcome DuckDuckGoLite, OF skip2]
                spec_tried_skip [of outcome Wikipedia, OF skip3] spec_tried.simps(1))
        show ?thesis by (simp only: sw chosen tried fst_conv snd_conv) simp
      qed
    qed
  qed
  then show ?thesis unfolding outcome_def m_def list.map .
qed

subsection \<open>The content fetcher\<close>

lemma andThen_Inr: "andThen outcome continue = Inr y \<longleftrightarrow> (\<exists>x. outcome = Inr x \<and> continue x = Inr y)"
  by (cases outcome) (simp_all add: andThen_def)

lemma sliceFromStart_length:
  "0 \<le> m \<Longrightarrow> int (length (sliceFromStart s m)) \<le> m"
  by (simp add: sliceFromStart_def Let_def)

lemma fetchPageTry_Inr:
  assumes "fetchPageTry web address m = Inr content"
  shows "\<exists>response. fetch web address = Inr response
           \<and> (if \<not> ok response then content = []
              else \<not> isl (bodyText response) \<and> (\<exists>s. content = sliceFromStart s m))"
proof -
  from assms obtain response where r: "fetch web address = Inr response"
    and rest: "(if \<not> ok response then Inr []
       else
         andThen (bodyText response) (\<lambda>html.
         andThen (load web html) (\<lambda>doc.
         andThen (remove web doc ''script, style, nav, header, footer, aside, iframe, noscript'') (\<lambda>cleaned.
         andThen (firstContent web cleaned contentSelectors) (\<lambda>found.
         andThen (if found = [] then andThen (select web cleaned ''body'') selText else Inr found)
           (\<lambda>content.
         Inr (sliceFromStart (trim (collapseWhiteSpace content)) m))))))) = Inr content"
    unfolding fetchPageTry_def andThen_Inr [of "fetch web address"] by blast
  show ?thesis
  proof (cases "ok response")
    case False
    with rest r show ?thesis by simp
  next
    case True
    with rest obtain html where "bodyText response = Inr html"
      and "\<exists>s. content = sliceFromStart s m"
      by (simp add: andThen_Inr) blast
    with True r show ?thesis by simp
  qed
qed

lemma fetchPageTry_length:
  "fetchPageTry web address m = Inr content \<Longrightarrow> 0 \<le> m \<Longrightarrow> int (length content) \<le> m"
  using fetchPageTry_Inr [of web address m content] sliceFromStart_length [of m]
  by (auto split: if_splits)

lemma fetchPageTry_fails:
  "fetchFails web address \<Longrightarrow> fetchPageTry web address m = Inr content \<Longrightarrow> content = []"
  using fetchPageTry_Inr [of web address m content]
  by (auto simp: fetchFails_def split: if_splits)

lemma fetchPageContent_Inr: "\<exists>content. fetchPageContent web address arg = Inr content"
  by (simp add: fetchPageContent_def split: sum.splits)

text \<open>
  C5, as the claim states it, at a negative \<open>maxLength\<close>: \<open>slice(0, -1)\<close> drops the last
  character only, so the page of 54 characters comes back with 53, which is not \<open>\<le> -1\<close>.
\<close>

theorem fetchPageContent_negative_maxLength_counterexample:
  "fetchPageContent exampleWeb ''https://b.example/q'' (Some (- 1))
     = Inr ''Wind turbines supplied 10% of the electricity in 2022''
   \<and> \<not> int (length ''Wind turbines supplied 10% of the electricity in 2022'') \<le> - 1"
  by code_simp

text \<open>
  C5, amended. For every url and \<open>maxLength\<close>, \<open>fetchPageContent\<close> never raises; on a
  network error, a non-success status or a timeout it returns the empty string; and for
  every integer \<open>maxLength \<ge> 0\<close> (the default 5000 among them) the returned string has at
  most \<open>maxLength\<close> characters.
\<close>

theorem fetchPageContent_never_raises_bounded:
  "\<exists>content. fetchPageContent web address maxLengthArg = Inr content
     \<and> (fetchFails web address \<longrightarrow> content = [])
     \<and> (0 \<le> maxLengthOf maxLengthArg \<longrightarrow> int (length content) \<le> maxLengthOf maxLengthArg)"
proof (cases "fetchPageTry web address (maxLengthOf maxLengthArg)")
  case (Inl err)
  then have "fetchPageContent web address maxLengthArg = Inr []"
    by (simp add: fetchPageContent_def)
  then show ?thesis by simp
next
  case (Inr content)
  then have "fetchPageContent web address maxLengthArg = Inr content"
    by (simp add: fetchPageContent_def)
  then show ?thesis
    using fetchPageTry_length [OF Inr] fetchPageTry_fails [OF _ Inr] by simp
qed

text \<open>
  C5, witness: a request that fails returns the empty string, and the page that answers
  is cut to 9 characters.
\<close>

theorem fetchPageContent_never_raises_bounded_witness:
  "fetchFails exampleWeb ''https://a.example/''
   \<and> fetchPageContent exampleWeb ''https://a.example/'' None = Inr []
   \<and> 0 \<le> maxLengthOf (Some 9)
   \<and> fetchPageContent exampleWeb ''https://b.example/q'' (Some 9) = Inr ''Wind turb''
   \<and> (\<exists>content. fetchPageContent exampleWeb ''https://b.example/q'' (Some 9) = Inr content
        \<and> int (length content) \<le> maxLengthOf (Some 9))"
proof -
  have fails: "fetchFails exampleWeb ''https://a.example/''"
    by code_simp
  have bound: "0 \<le> maxLengthOf (Some 9)"
    by (simp add: maxLengthOf_def)
  have cut: "fetchPageContent exampleWeb ''https://b.example/q'' (Some 9) = Inr ''Wind turb''"
    by code_simp
  from fetchPageContent_never_raises_bounded [of exampleWeb "''https://a.example/''" None] fails
  have empty: "fetchPageContent exampleWeb ''https://a.example/'' None = Inr []"
    by auto
  from fetchPageContent_never_raises_bounded [of exampleWeb "''https://b.example/q''" "Some 9"] bound
  have "\<exists>content. fetchPageContent exampleWeb ''https://b.example/q'' (Some 9) = Inr content
          \<and> int (length content) \<le> maxLengthOf (Some 9)"
    by auto
  with fails bound cut empty show ?thesis by simp
qed

subsection \<open>The research run\<close>

lemma fetchOne_snd: "snd (fetchOne web state result) = snd state @ [url result]"
  by (simp add: fetchOne_def split: sum.splits)

lemma fetchPages_requested_from:
  "snd (foldl (fetchOne web) state rs) = snd state @ map url rs"
  by (induction rs arbitrary: state) (simp_all add: fetchOne_snd)

lemma fetchPages_requested: "snd (fetchPages web toFetch) = map url toFetch"
  by (simp add: fetchPages_def fetchPages_requested_from)

lemma research_requested:
  "snd (research env web clock subject)
     = map url (take MAX_PAGES_TO_FETCH (deduplicateResults (allResultsOf env subject)))"
  by (simp add: research_def Let_def fetchPages_requested allResultsOf_def comp_def)

text \<open>
  C6, as the claim states it: were the pages chosen from the results in descending score
  order, the run on the example providers would fetch the page of the study, whose snippet
  scores highest; it is the seventh result, the sixth after deduplication, and the run does
  not fetch it.
\<close>

theorem research_fetch_not_score_ordered_counterexample:
  "''https://f.example/study'' \<in> set (spec_scoredFront (allResultsOf exampleProviders ''solar''))
   \<and> ''https://f.example/study'' \<notin> set (snd (research exampleProviders exampleWeb exampleClock ''solar''))"
  by code_simp

text \<open>
  C6, amended. In every research run at most 5 pages are fetched, and the URLs fetched are
  the first min(5, n) entries of the search results after URL deduplication, in the order
  in which the searches returned them (the batches of the queries, in the order of the
  queries); the results are not ordered by a score.
\<close>

theorem research_fetches_front:
  "snd (research env web clock subject)
     = map url (take 5 (deduplicateResults (allResultsOf env subject)))
   \<and> length (snd (research env web clock subject))
     = min 5 (length (deduplicateResults (allResultsOf env subject)))"
  by (simp add: research_requested MAX_PAGES_TO_FETCH_def)

lemma fetchOne_Inr:
  "fst state = Inr pageTexts \<Longrightarrow> \<exists>pageTexts'. fst (fetchOne web state result) = Inr pageTexts'"
  using fetchPageContent_Inr [of web "url result" None]
  by (auto simp: fetchOne_def)

lemma fetchPages_Inr_from:
  "fst state = Inr pageTexts \<Longrightarrow> \<exists>pageTexts'. fst (foldl (fetchOne web) state rs) = Inr pageTexts'"
proof (induction rs arbitrary: state pageTexts)
  case Nil
  then show ?case by simp
next
  case (Cons r rs)
  from fetchOne_Inr [OF Cons.prems, of web r]
  obtain next_texts where "fst (fetchOne web state r) = Inr next_texts" by blast
  from Cons.IH [OF this] show ?case by simp
qed

lemma fetchPages_Inr: "\<exists>pageTexts. fst (fetchPages web toFetch) = Inr pageTexts"
  unfolding fetchPages_def by (rule fetchPages_Inr_from [of _ Map.empty]) simp

lemma candidatesOf_url: "c \<in> set (candidatesOf pageTexts r) \<Longrightarrow> candUrl c = url r"
  by (auto simp: candidatesOf_def snippetCandidate_def pageCandidate_def
           split: option.splits if_splits dest: in_set_takeD)

lemma extractFacts_source:
  assumes "f \<in> set (extractFacts results pageTexts t)"
  shows "\<exists>r \<in> set results. url r = sourceUrl f"
proof -
  from assms selectFacts_subset [of t "sortCandidates (concat (map (candidatesOf pageTexts) results))" "[]" "[]"]
  obtain c where c: "c \<in> set (sortCandidates (concat (map (candidatesOf pageTexts) results)))"
    and f: "f = factOf c"
    by (auto simp: extractFacts_def)
  from c obtain r where r: "r \<in> set results" and cr: "c \<in> set (candidatesOf pageTexts r)"
    by (auto simp: sortCandidates_def)
  from candidatesOf_url [OF cr] f have "url r = sourceUrl f" by (simp add: factOf_def)
  with r show ?thesis by blast
qed

lemma toSource_url: "url (toSource clock ir) = url (snd ir)"
  by (simp add: toSource_def)

lemma sources_cover:
  assumes "r \<in> set rs"
  shows "\<exists>s \<in> set (map (toSource clock) (enumerate 0 rs)). url s = url r"
proof -
  from assms obtain i where "i < length rs" and "rs ! i = r"
    by (auto simp: in_set_conv_nth)
  then have member: "(i, r) \<in> set (enumerate 0 rs)"
    by (simp add: in_set_enumerate_eq)
  have "url (toSource clock (i, r)) = url r"
    by (simp add: toSource_url)
  moreover have "toSource clock (i, r) \<in> set (map (toSource clock) (enumerate 0 rs))"
    using member by simp
  ultimately show ?thesis by blast
qed

text \<open>
  C8. Every research run returns a result, and in it the \<open>sourceUrl\<close> of each fact is the
  \<open>url\<close> of an entry of the returned \<open>sources\<close>.
\<close>

theorem research_fact_sources_listed:
  "\<exists>r. fst (research env web clock subject) = Inr r
     \<and> (\<forall>f \<in> set (facts r). \<exists>s \<in> set (sources r). url s = sourceUrl f)"
proof -
  let ?unique = "deduplicateResults (allResultsOf env subject)"
  obtain pageTexts where pt: "fst (fetchPages web (take MAX_PAGES_TO_FETCH ?unique)) = Inr pageTexts"
    using fetchPages_Inr by blast
  let ?found = "extractFacts ?unique pageTexts TARGET_FACTS"
  let ?urls = "set (map sourceUrl ?found)"
  let ?listed = "filter (\<lambda>r. url r \<in> ?urls) ?unique @ take 3 (filter (\<lambda>r. url r \<notin> ?urls) ?unique)"
  obtain r where r: "fst (research env web clock subject) = Inr r"
    and fr: "facts r = ?found"
    and sr: "sources r = map (toSource clock) (enumerate 0 ?listed)"
    using pt by (simp add: research_def Let_def allResultsOf_def comp_def)
  have "\<exists>s \<in> set (sources r). url s = sourceUrl f" if "f \<in> set (facts r)" for f
  proof -
    from that fr extractFacts_source obtain u where u: "u \<in> set ?unique" and uf: "url u = sourceUrl f"
      by metis
    from that fr uf have "url u \<in> ?urls" by simp
    with u have "u \<in> set ?listed" by simp
    from sources_cover [OF this, of clock] sr uf show ?thesis by simp
  qed
  with r show ?thesis by blast
qed

text \<open>
  C8, witness: the run on the example providers returns two facts, one from a snippet and
  one from the fetched page.
\<close>

theorem research_fact_sources_listed_witness:
  "\<exists>r. fst (research exampleProviders exampleWeb exampleClock ''solar'') = Inr r
     \<and> facts r \<noteq> []
     \<and> (\<forall>f \<in> set (facts r). \<exists>s \<in> set (sources r). url s = sourceUrl f)"
proof -
  have found: "facts (projr (fst (research exampleProviders exampleWeb exampleClock ''solar''))) \<noteq> []"
    by code_simp
  from research_fact_sources_listed [of exampleProviders exampleWeb exampleClock "''solar''"]
  obtain r where r: "fst (research exampleProviders exampleWeb exampleClock ''solar'') = Inr r"
    and listed: "\<forall>f \<in> set (facts r). \<exists>s \<in> set (sources r). url s = sourceUrl f"
    by blast
  from found r have "facts r \<noteq> []" by simp
  with r listed show ?thesis by blast
qed

subsection \<open>The orchestrator\<close>

lemma runStep_snd: "snd (runStep step elapsed outcome) = outcome"
  by (cases outcome) (simp_all add: runStep_def)

lemma runStep_makeStep_Inl:
  "fst (runStep (makeStep name) elapsed (Inl err))
     = \<lparr>agent = name, status = StepFailed, durationMs = elapsed, error = Some (message err)\<rparr>"
  by (simp add: runStep_def makeStep_def)

lemma runStep_makeStep_Inr:
  "fst (runStep (makeStep name) elapsed (Inr v))
     = \<lparr>agent = name, status = StepCompleted, durationMs = elapsed, error = None\<rparr>"
  by (simp add: runStep_def makeStep_def)

lemma runPipeline_research_raises:
  assumes "researchAgent agents subject = Inl err"
  shows "runPipeline agents timing now subject chosenTone =
     \<lparr>httpStatus = 502,
      body = ResultBody (buildResult Failed subject chosenTone (totalMs timing) now
               [\<lparr>agent = ''research'', status = StepFailed, durationMs = researchMs timing,
                 error = Some (message err)\<rparr>,
                \<lparr>agent = ''writer'', status = StepSkipped, durationMs = 0, error = None\<rparr>,
                \<lparr>agent = ''editor'', status = StepSkipped, durationMs = 0, error = None\<rparr>]
               None None None)\<rparr>"
  using assms
  by (simp add: runPipeline_def Let_def runStep_snd runStep_makeStep_Inl) (simp add: makeStep_def)

lemma runPipeline_no_facts:
  assumes "researchAgent agents subject = Inr researchData" and "facts researchData = []"
  shows "runPipeline agents timing now subject chosenTone =
     \<lparr>httpStatus = 200,
      body = ResultBody (buildResult Partial subject chosenTone (totalMs timing) now
               [\<lparr>agent = ''research'', status = StepCompleted, durationMs = researchMs timing,
                 error = None\<rparr>,
                \<lparr>agent = ''writer'', status = StepSkipped, durationMs = 0,
                 error = Some ''No facts available from research to write about''\<rparr>,
                \<lparr>agent = ''editor'', status = StepSkipped, durationMs = 0, error = None\<rparr>]
               (Some researchData) None None)\<rparr>"
  using assms
  by (simp add: runPipeline_def Let_def runStep_snd runStep_makeStep_Inr) (simp add: makeStep_def)

lemma runPipeline_research_returns:
  assumes "researchAgent agents subject = Inr researchData"
  shows "\<exists>code stepList r w e.
     runPipeline agents timing now subject chosenTone =
       \<lparr>httpStatus = code,
        body = ResultBody (buildResult Partial subject chosenTone (totalMs timing) now stepList r w e)\<rparr>
   \<or> runPipeline agents timing now subject chosenTone =
       \<lparr>httpStatus = code,
        body = ResultBody (buildResult Completed subject chosenTone (totalMs timing) now stepList r w e)\<rparr>"
proof (cases "facts researchData = []")
  case True
  from runPipeline_no_facts [OF assms True] show ?thesis by blast
next
  case False
  let ?w = "writerAgent agents
              \<lparr>writeTopic = topic researchData, writeFacts = facts researchData,
               writeSources = sources researchData, writeTone = Some chosenTone\<rparr>"
  show ?thesis
  proof (cases ?w)
    case (Inl err)
    with assms False show ?thesis
      by (simp add: runPipeline_def Let_def runStep_snd) blast
  next
    case w: (Inr writerData)
    let ?e = "editorAgent agents
                \<lparr>inputTitle = writtenTitle writerData, inputArticle = article writerData,
                 inputTopic = writtenTopic writerData, inputTone = Some chosenTone,
                 inputCitations = Some (writtenCitations writerData)\<rparr>"
    show ?thesis
    proof (cases ?e)
      case (Inl err)
      with assms False w show ?thesis
        by (simp add: runPipeline_def Let_def runStep_snd) blast
    next
      case (Inr editorData)
      with assms False w show ?thesis
        by (simp add: runPipeline_def Let_def runStep_snd) blast
    qed
  qed
qed

lemma POST_valid:
  "validateInput parsed = Inr (subject, chosenTone) \<Longrightarrow>
   POST agents timing now parsed = runPipeline agents timing now subject chosenTone"
  by (simp add: POST_def)

lemma validate_exampleRequest:
  "validateInput exampleRequest = Inr (''solar power'', ''professional'')"
  by code_simp

text \<open>
  C1. For every request that passes validation, the overall status is \<open>failed\<close> if and only
  if the research stage raises; then the research step is \<open>failed\<close>, the writer and editor
  steps are \<open>skipped\<close>, and the returned research field is null.
\<close>

theorem orchestrate_failed_iff_research_raises:
  assumes "validateInput parsed = Inr (subject, chosenTone)"
  shows "\<exists>code r. POST agents timing now parsed = \<lparr>httpStatus = code, body = ResultBody r\<rparr>
           \<and> (overallStatus r = Failed \<longleftrightarrow> isl (researchAgent agents subject))
           \<and> (isl (researchAgent agents subject) \<longrightarrow>
                map agent (steps r) = [''research'', ''writer'', ''editor'']
                \<and> map status (steps r) = [StepFailed, StepSkipped, StepSkipped]
                \<and> researchField r = None)"
proof (cases "researchAgent agents subject")
  case (Inl err)
  show ?thesis
    unfolding POST_valid [OF assms] runPipeline_research_raises [OF Inl]
    using Inl by (simp add: buildResult_def)
next
  case (Inr researchData)
  from runPipeline_research_returns [OF Inr, of timing now chosenTone]
  obtain code stepList r w e where
    "runPipeline agents timing now subject chosenTone =
       \<lparr>httpStatus = code,
        body = ResultBody (buildResult Partial subject chosenTone (totalMs timing) now stepList r w e)\<rparr>
   \<or> runPipeline agents timing now subject chosenTone =
       \<lparr>httpStatus = code,
        body = ResultBody (buildResult Completed subject chosenTone (totalMs timing) now stepList r w e)\<rparr>"
    by blast
  then show ?thesis
    unfolding POST_valid [OF assms] using Inr
    by (auto simp: buildResult_def)
qed

text \<open>
  C1, witness: a valid request handled by agents whose research raises.
\<close>

theorem orchestrate_failed_iff_research_raises_witness:
  "validateInput exampleRequest = Inr (''solar power'', ''professional'')
   \<and> isl (researchAgent failingAgents ''solar power'')
   \<and> (\<exists>code r. POST failingAgents exampleTimings ''2025-01-01T00:00:10.000Z'' exampleRequest
                  = \<lparr>httpStatus = code, body = ResultBody r\<rparr>
        \<and> overallStatus r = Failed
        \<and> map agent (steps r) = [''research'', ''writer'', ''editor'']
        \<and> map status (steps r) = [StepFailed, StepSkipped, StepSkipped]
        \<and> researchField r = None)"
proof -
  have raises: "isl (researchAgent failingAgents ''solar power'')"
    by (simp add: failingAgents_def)
  from orchestrate_failed_iff_research_raises [OF validate_exampleRequest,
      of failingAgents exampleTimings "''2025-01-01T00:00:10.000Z''"]
  obtain code r where
    post: "POST failingAgents exampleTimings ''2025-01-01T00:00:10.000Z'' exampleRequest
             = \<lparr>httpStatus = code, body = ResultBody r\<rparr>"
    and failed: "overallStatus r = Failed \<longleftrightarrow> isl (researchAgent failingAgents ''solar power'')"
    and marks: "isl (researchAgent failingAgents ''solar power'') \<longrightarrow>
                map agent (steps r) = [''research'', ''writer'', ''editor'']
                \<and> map status (steps r) = [StepFailed, StepSkipped, StepSkipped]
                \<and> researchField r = None"
    by (elim exE conjE)
  from failed marks raises
  have "overallStatus r = Failed
        \<and> map agent (steps r) = [''research'', ''writer'', ''editor'']
        \<and> map status (steps r) = [StepFailed, StepSkipped, StepSkipped]
        \<and> researchField r = None"
    by simp
  with post have "\<exists>code r. POST failingAgents exampleTimings ''2025-01-01T00:00:10.000Z'' exampleRequest
                  = \<lparr>httpStatus = code, body = ResultBody r\<rparr>
        \<and> overallStatus r = Failed
        \<and> map agent (steps r) = [''research'', ''writer'', ''editor'']
        \<and> map status (steps r) = [StepFailed, StepSkipped, StepSkipped]
        \<and> researchField r = None"
    by (intro exI [of _ code] exI [of _ r] conjI) simp_all
  with validate_exampleRequest raises show ?thesis by (intro conjI)
qed

text \<open>
  C4. When the research stage completes with zero facts, the overall status is \<open>partial\<close>,
  the research step is \<open>completed\<close>, the writer step is \<open>skipped\<close> with exactly the message
  "No facts available from research to write about", the editor step is \<open>skipped\<close>, article
  and edited are null and research is populated.
\<close>

theorem orchestrate_no_facts_partial:
  assumes "validateInput parsed = Inr (subject, chosenTone)"
      and "researchAgent agents subject = Inr researchData"
      and "facts researchData = []"
  shows "\<exists>code r. POST agents timing now parsed = \<lparr>httpStatus = code, body = ResultBody r\<rparr>
           \<and> overallStatus r = Partial
           \<and> map agent (steps r) = [''research'', ''writer'', ''editor'']
           \<and> map status (steps r) = [StepCompleted, StepSkipped, StepSkipped]
           \<and> map error (steps r) = [None, Some ''No facts available from research to write about'', None]
           \<and> researchField r = Some researchData \<and> articleField r = None \<and> editedField r = None"
  unfolding POST_valid [OF assms(1)] runPipeline_no_facts [OF assms(2,3)]
  by (simp add: buildResult_def)

text \<open>
  C4, witness: a valid request handled by agents whose research runs on providers that
  find nothing.
\<close>

theorem orchestrate_no_facts_partial_witness:
  "validateInput exampleRequest = Inr (''solar power'', ''professional'')
   \<and> researchAgent noFactsAgents ''solar power'' = Inr emptyResearch
   \<and> facts emptyResearch = []
   \<and> (\<exists>code r. POST noFactsAgents exampleTimings ''2025-01-01T00:00:10.000Z'' exampleRequest
                  = \<lparr>httpStatus = code, body = ResultBody r\<rparr>
        \<and> overallStatus r = Partial
        \<and> map agent (steps r) = [''research'', ''writer'', ''editor'']
        \<and> map status (steps r) = [StepCompleted, StepSkipped, StepSkipped]
        \<and> map error (steps r) = [None, Some ''No facts available from research to write about'', None]
        \<and> researchField r = Some emptyResearch \<and> articleField r = None \<and> editedField r = None)"
proof -
  have returns: "researchAgent noFactsAgents ''solar power'' = Inr emptyResearch"
    by code_simp
  have none: "facts emptyResearch = []"
    by (simp add: emptyResearch_def)
  from orchestrate_no_facts_partial [OF validate_exampleRequest returns none,
      of exampleTimings "''2025-01-01T00:00:10.000Z''"]
  have "\<exists>code r. POST noFactsAgents exampleTimings ''2025-01-01T00:00:10.000Z'' exampleRequest
                  = \<lparr>httpStatus = code, body = ResultBody r\<rparr>
        \<and> overallStatus r = Partial
        \<and> map agent (steps r) = [''research'', ''writer'', ''editor'']
        \<and> map status (steps r) = [StepCompleted, StepSkipped, StepSkipped]
        \<and> map error (steps r) = [None, Some ''No facts available from research to write about'', None]
        \<and> researchField r = Some emptyResearch \<and> articleField r = None \<and> editedField r = None" .
  with validate_exampleRequest returns none show ?thesis by (intro conjI)
qed

subsection \<open>The editor agent\<close>

text \<open>
  C10. Whenever \<open>EditorAgent.edit\<close> succeeds, the \<open>citations\<close> of its result are the
  citations of the input unchanged (the empty array when the input has none),
  \<open>originalTitle\<close> is the title of the input and \<open>originalArticle\<close> its article.
\<close>

theorem edit_pass_through:
  assumes "edit editArticle now input = Inr r"
  shows "citations r = (case inputCitations input of None \<Rightarrow> [] | Some given \<Rightarrow> given)
         \<and> originalTitle r = inputTitle input
         \<and> originalArticle r = inputArticle input"
  using assms by (auto simp: edit_def Let_def split: if_splits sum.splits)

text \<open>
  C10, witness: the editor that changes nothing, on an input with one citation and on
  an input without citations.
\<close>

theorem edit_pass_through_witness:
  "(\<exists>r. edit exampleEditArticle ''2025-01-01T00:00:09.000Z'' (exampleEditInput (Some [exampleCitation])) = Inr r
       \<and> citations r = [exampleCitation]
       \<and> originalTitle r = ''Solar power''
       \<and> originalArticle r = ''Solar power grew 24% in 2023 [1].'')
   \<and> (\<exists>r. edit exampleEditArticle ''2025-01-01T00:00:09.000Z'' (exampleEditInput None) = Inr r
       \<and> citations r = []
       \<and> originalTitle r = ''Solar power''
       \<and> originalArticle r = ''Solar power grew 24% in 2023 [1].'')"
proof -
  have "\<not> isl (edit exampleEditArticle ''2025-01-01T00:00:09.000Z'' (exampleEditInput (Some [exampleCitation])))"
    by code_simp
  then obtain r1 where
    r1: "edit exampleEditArticle ''2025-01-01T00:00:09.000Z'' (exampleEditInput (Some [exampleCitation])) = Inr r1"
    by (cases "edit exampleEditArticle ''2025-01-01T00:00:09.000Z'' (exampleEditInput (Some [exampleCitation]))") simp_all
  have "\<not> isl (edit exampleEditArticle ''2025-01-01T00:00:09.000Z'' (exampleEditInput None))"
    by code_simp
  then obtain r2 where
    r2: "edit exampleEditArticle ''2025-01-01T00:00:09.000Z'' (exampleEditInput None) = Inr r2"
    by (cases "edit exampleEditArticle ''2025-01-01T00:00:09.000Z'' (exampleEditInput None)") simp_all
  from edit_pass_through [OF r1] edit_pass_through [OF r2] r1 r2
  show ?thesis by (simp add: exampleEditInput_def)
qed

end
